theory Spec2Isabelle
  imports Main
begin

section \<open>The connector class of Ecosystem/Connector/Main\_Asset.py\<close>

text \<open>
  The source file holds one class statement:
  \<^verbatim>\<open>
  from ibapi.client import EClient
  from ibapi.wrapper import EWrapper

  class IBAPI(EWrapper, EClient):
      """
      The main class for interacting with the IBKR API

                  ----- EClient ------>
      PYTHON CODE                       TWS API
                  <---- EWrapper ------

      """
      # Initialising the EClient
      def __init__(self) :
          EClient.__init__(self, self)
  \<close>
  The classes \<open>EClient\<close> and \<open>EWrapper\<close> belong to the imported library ibapi, whose code
  is not part of the repository. The model takes the library as a parameter: what its
  classes bind is given by a \<open>library\<close> value, and every statement below holds for every
  such value unless it names a hypothesis on it.
\<close>

subsection \<open>Values, objects and the store\<close>

type_synonym addr = nat

datatype val = VNone | VRef addr | VInt int | VStr string

text \<open>The classes in play: the one of the source, its two bases, and \<open>object\<close>.\<close>

datatype pyclass = IBAPI | EWrapper | EClient | Object

text \<open>
  Exceptions: the two the interpreter raises by itself on the paths modelled here (a call
  with the wrong number of arguments or of a value that is no function; a name that no
  class defines), and whatever library code raises, kept as the library gave it.
\<close>

datatype error = TypeError | AttributeError | LibraryError string

record pyobj =
  cls :: pyclass
  attrs :: "string \<rightharpoonup> val"

record store =
  objects :: "addr \<rightharpoonup> pyobj"
  next_addr :: addr

text \<open>
  A Python function of the library: it takes the actual arguments (the receiver first)
  and the store, and gives back a value or a raised exception together with the store it
  left. An exception does not undo what the function wrote before raising.

  A library function is taken whole, as the function it is in the library at hand. What it
  does through its receiver, calls such as \<open>self.reset()\<close> that Python dispatches on the
  class of the receiver (which the store holds) included, is inside it and is not an
  entry made by the caller. The functions of one library therefore belong together: a
  record with one dictionary replaced is another library, not the same functions run
  against other definitions, and no statement below compares a library with a changed
  copy of it.
\<close>

type_synonym impl = "val list \<Rightarrow> store \<Rightarrow> (error + val) \<times> store"

text \<open>
  What a class body binds under a name: a function, or a value that is not callable
  (a docstring, a constant).
\<close>

datatype entry = Function impl | Value val

text \<open>
  The library as a parameter: what the class bodies of \<open>EWrapper\<close> and \<open>EClient\<close> bind,
  and what the builtin \<open>object\<close> holds, by name.
\<close>

record library =
  EWrapper_dict :: "string \<rightharpoonup> entry"
  EClient_dict :: "string \<rightharpoonup> entry"
  object_dict :: "string \<rightharpoonup> entry"

subsection \<open>The class statement: bases, method resolution order, own definitions\<close>

text \<open>
  \<open>class IBAPI(EWrapper, EClient)\<close> lists its bases in this order. The two library classes
  are taken as direct subclasses of \<open>object\<close>, so the linearisation of \<open>IBAPI\<close> is
  \<open>IBAPI, EWrapper, EClient, object\<close>.
\<close>

fun mro :: "pyclass \<Rightarrow> pyclass list" where
  "mro IBAPI = [IBAPI, EWrapper, EClient, Object]"
| "mro EWrapper = [EWrapper, Object]"
| "mro EClient = [EClient, Object]"
| "mro Object = [Object]"

text \<open>
  The body of \<open>IBAPI\<close> has a docstring and a single \<open>def\<close>, that of \<open>__init__\<close>. Besides
  the function, the class statement binds values that are not functions: the docstring
  under \<open>__doc__\<close> and the name of the module under \<open>__module__\<close>, and from Python 3.13 on
  the line of the statement under \<open>__firstlineno__\<close> and the attributes assigned through
  \<open>self\<close> under \<open>__static_attributes__\<close>. All four names are taken as bound here; the
  properties of inherited names below leave them out, so they hold for either version.
\<close>

datatype own = Own_function | Own_value

definition IBAPI_data_names :: "string list" where
  "IBAPI_data_names = [''__doc__'', ''__module__'', ''__firstlineno__'', ''__static_attributes__'']"

definition IBAPI_dict :: "string \<Rightarrow> own option" where
  "IBAPI_dict m =
     (if m = ''__init__'' then Some Own_function
      else if m \<in> set IBAPI_data_names then Some Own_value
      else None)"

fun class_defines :: "library \<Rightarrow> pyclass \<Rightarrow> string \<Rightarrow> bool" where
  "class_defines L IBAPI m = (IBAPI_dict m \<noteq> None)"
| "class_defines L EWrapper m = (EWrapper_dict L m \<noteq> None)"
| "class_defines L EClient m = (EClient_dict L m \<noteq> None)"
| "class_defines L Object m = (object_dict L m \<noteq> None)"

text \<open>What a library class binds under a name; \<open>IBAPI\<close> is not a class of the library.\<close>

fun lib_entry :: "library \<Rightarrow> pyclass \<Rightarrow> string \<rightharpoonup> entry" where
  "lib_entry L IBAPI m = None"
| "lib_entry L EWrapper m = EWrapper_dict L m"
| "lib_entry L EClient m = EClient_dict L m"
| "lib_entry L Object m = object_dict L m"

text \<open>
  Attribute lookup on a class: the first class of its resolution order that binds the
  name.
\<close>

definition resolve :: "library \<Rightarrow> pyclass \<Rightarrow> string \<Rightarrow> pyclass option" where
  "resolve L c m = find (\<lambda>k. class_defines L k m) (mro c)"

subsection \<open>Calls into the library, as the caller sees them\<close>

text \<open>
  Every entry into a library function made by the code of the class or by its client is
  recorded: the class whose function ran, the name, the actual arguments and what the call
  gave back.
\<close>

datatype event = Call pyclass string "val list" "error + val"

type_synonym outcome = "(error + val) \<times> store \<times> event list"

fun result_of :: "outcome \<Rightarrow> error + val" where
  "result_of (r, st, evs) = r"

fun store_of :: "outcome \<Rightarrow> store" where
  "store_of (r, st, evs) = st"

fun events_of :: "outcome \<Rightarrow> event list" where
  "events_of (r, st, evs) = evs"

text \<open>
  The value of the expression \<open>C.m\<close> for a library class \<open>C\<close>: what is bound to \<open>m\<close>
  along the resolution order of \<open>C\<close>, with the class that binds it; and the same when
  what is found is a function.
\<close>

definition class_lookup :: "library \<Rightarrow> pyclass \<Rightarrow> string \<Rightarrow> (pyclass \<times> entry) option" where
  "class_lookup L c m =
     (case resolve L c m of
        None \<Rightarrow> None
      | Some k \<Rightarrow> (case lib_entry L k m of None \<Rightarrow> None | Some e \<Rightarrow> Some (k, e)))"

definition class_attr :: "library \<Rightarrow> pyclass \<Rightarrow> string \<Rightarrow> (pyclass \<times> impl) option" where
  "class_attr L c m =
     (case class_lookup L c m of
        Some (k, Function f) \<Rightarrow> Some (k, f)
      | _ \<Rightarrow> None)"

text \<open>
  \<open>C.m(args)\<close>: evaluate \<open>C.m\<close> and call what is found. A name bound nowhere is an
  \<open>AttributeError\<close>, a value that is not a function a \<open>TypeError\<close>.
\<close>

definition call_class_attr :: "library \<Rightarrow> pyclass \<Rightarrow> string \<Rightarrow> val list \<Rightarrow> store \<Rightarrow> outcome" where
  "call_class_attr L c m args st =
     (case class_lookup L c m of
        None \<Rightarrow> (Inl AttributeError, st, [])
      | Some (k, Value v) \<Rightarrow> (Inl TypeError, st, [])
      | Some (k, Function f) \<Rightarrow> (case f args st of (r, st') \<Rightarrow> (r, st', [Call k m args r])))"

subsection \<open>The initialiser and the construction call\<close>

text \<open>
  \<open>IBAPI.__init__\<close>: one parameter, \<open>self\<close>; any other number of arguments is a
  \<open>TypeError\<close> raised before the body runs. The body is the single expression statement
  \<open>EClient.__init__(self, self)\<close>: its value is dropped, an exception it raises passes
  through, and the function returns \<open>None\<close>.
\<close>

definition IBAPI_init :: "library \<Rightarrow> val list \<Rightarrow> store \<Rightarrow> outcome" where
  "IBAPI_init L args st =
     (case args of
        [self] \<Rightarrow>
          (case call_class_attr L EClient ''__init__'' [self, self] st of
             (Inl e, st', evs) \<Rightarrow> (Inl e, st', evs)
           | (Inr r, st', evs) \<Rightarrow> (Inr VNone, st', evs))
      | _ \<Rightarrow> (Inl TypeError, st, []))"

text \<open>
  Allocation of a new instance of \<open>IBAPI\<close> (\<open>object.__new__\<close>; the library classes are taken
  not to override \<open>__new__\<close>): a fresh address holding an object without attributes.
\<close>

definition allocate :: "store \<Rightarrow> addr \<times> store" where
  "allocate st =
     (next_addr st,
      st\<lparr>objects := (objects st)(next_addr st \<mapsto> \<lparr>cls = IBAPI, attrs = Map.empty\<rparr>),
         next_addr := Suc (next_addr st)\<rparr>)"

text \<open>
  The call \<open>IBAPI(args)\<close>: allocate, run \<open>__init__\<close> on the new object with the arguments
  of the call, and give the object back; \<open>__init__\<close> must have returned \<open>None\<close>.
\<close>

definition construct :: "library \<Rightarrow> val list \<Rightarrow> store \<Rightarrow> outcome" where
  "construct L args st =
     (case allocate st of
        (a, st1) \<Rightarrow>
          (case IBAPI_init L (VRef a # args) st1 of
             (Inl e, st2, evs) \<Rightarrow> (Inl e, st2, evs)
           | (Inr r, st2, evs) \<Rightarrow>
               (if r = VNone then (Inr (VRef a), st2, evs) else (Inl TypeError, st2, evs))))"

subsection \<open>Method calls on an instance\<close>

text \<open>
  \<open>obj.m(args)\<close>: an attribute of the instance itself shadows a function of the class (the
  values of the model are not callable, so calling it is a \<open>TypeError\<close>); otherwise the name
  is looked up on the class of the object. A function found is called with the object as
  first argument; a value found that is not a function (the docstring of \<open>IBAPI\<close>, a
  constant of a library class) is not callable, a \<open>TypeError\<close> again.
\<close>

definition invoke :: "library \<Rightarrow> addr \<Rightarrow> string \<Rightarrow> val list \<Rightarrow> store \<Rightarrow> outcome" where
  "invoke L a m args st =
     (case objects st a of
        None \<Rightarrow> (Inl AttributeError, st, [])
      | Some ob \<Rightarrow>
          (case attrs ob m of
             Some v \<Rightarrow> (Inl TypeError, st, [])
           | None \<Rightarrow>
               (case resolve L (cls ob) m of
                  None \<Rightarrow> (Inl AttributeError, st, [])
                | Some IBAPI \<Rightarrow>
                    (case IBAPI_dict m of
                       Some Own_function \<Rightarrow> IBAPI_init L (VRef a # args) st
                     | _ \<Rightarrow> (Inl TypeError, st, []))
                | Some k \<Rightarrow>
                    (case lib_entry L k m of
                       None \<Rightarrow> (Inl AttributeError, st, [])
                     | Some (Value v) \<Rightarrow> (Inl TypeError, st, [])
                     | Some (Function f) \<Rightarrow>
                         (case f (VRef a # args) st of
                            (r, st') \<Rightarrow> (r, st', [Call k m (VRef a # args) r]))))))"

subsection \<open>The binding contract of the library\<close>

text \<open>
  Modelled from the spec: the initialiser of the library's Requester class
  (\<open>ibapi.client.EClient.__init__\<close>, not in the repository) registers the callback target
  handed to it. Section 6 of the specification names this contract: the connector passes
  itself as the callback target when it initialises its request-issuing half. How a store
  shows the registered target of an object is the observer \<open>target\<close>; the contract says
  that after a normal return of the initialiser the receiver's target is the argument.
\<close>

definition registers_target :: "library \<Rightarrow> (store \<Rightarrow> addr \<Rightarrow> val option) \<Rightarrow> bool" where
  "registers_target L target \<longleftrightarrow>
     (\<forall>k f a w st r st'.
        class_attr L EClient ''__init__'' = Some (k, f) \<and> f [VRef a, w] st = (Inr r, st')
        \<longrightarrow> target st' a = Some w)"

definition attr_of :: "store \<Rightarrow> addr \<Rightarrow> string \<Rightarrow> val option" where
  "attr_of st a n = (case objects st a of None \<Rightarrow> None | Some ob \<Rightarrow> attrs ob n)"

subsection \<open>Requests and the library's own attributes\<close>

text \<open>
  A request, as the caller sees it: an entry into a library function other than an
  initialiser.
\<close>

fun is_request :: "event \<Rightarrow> bool" where
  "is_request (Call k m args r) = (m \<noteq> ''__init__'')"

fun event_class :: "event \<Rightarrow> pyclass" where
  "event_class (Call k m args r) = k"


subsection \<open>Clients of the class\<close>

text \<open>
  A client reaches the class through the construction call \<open>IBAPI(args)\<close>, through
  \<open>IBAPI.__new__(IBAPI)\<close>, which allocates an instance and runs no initialiser, and through
  method calls \<open>c.m(args)\<close> on an instance \<open>c\<close> that one of the two gave it (the \<open>i\<close>-th
  one it holds). An exception ends the command that raised it, not the client, so the
  runs of a client that stops at an exception are among those modelled. A run yields the
  entries into the library in the order they were made, each with the store it left.
\<close>

datatype cmd = New "val list" | Alloc | Invoke nat string "val list"

type_synonym step = "event \<times> store"

fun run :: "library \<Rightarrow> cmd list \<Rightarrow> addr list \<Rightarrow> store \<Rightarrow> step list" where
  "run L [] refs st = []"
| "run L (New args # cs) refs st =
     (case construct L args st of
        (Inr (VRef a), st', evs) \<Rightarrow> map (\<lambda>ev. (ev, st')) evs @ run L cs (refs @ [a]) st'
      | (r, st', evs) \<Rightarrow> map (\<lambda>ev. (ev, st')) evs @ run L cs refs st')"
| "run L (Alloc # cs) refs st =
     (case allocate st of (a, st') \<Rightarrow> run L cs (refs @ [a]) st')"
| "run L (Invoke i m args # cs) refs st =
     (if i < length refs
      then (case invoke L (refs ! i) m args st of
              (r, st', evs) \<Rightarrow> map (\<lambda>ev. (ev, st')) evs @ run L cs refs st')
      else run L cs refs st)"


subsection \<open>A small library instance\<close>

text \<open>
  A concrete library on which the statements below are exercised. The initialiser of
  \<open>EClient\<close> stores its second argument under the attribute \<open>wrapper\<close> of its first; that
  of \<open>EWrapper\<close> would mark its receiver under \<open>ready\<close>; there are two requests, one of
  which raises, a callback, and a constant.
\<close>

definition toy_client_init :: impl where
  "toy_client_init args st =
     (case args of
        [VRef a, w] \<Rightarrow>
          (case objects st a of
             None \<Rightarrow> (Inl (LibraryError ''no such object''), st)
           | Some ob \<Rightarrow>
               (Inr VNone, st\<lparr>objects := (objects st)(a \<mapsto> ob\<lparr>attrs := (attrs ob)(''wrapper'' \<mapsto> w)\<rparr>)\<rparr>))
      | _ \<Rightarrow> (Inl TypeError, st))"

definition toy_wrapper_init :: impl where
  "toy_wrapper_init args st =
     (case args of
        [VRef a] \<Rightarrow>
          (case objects st a of
             None \<Rightarrow> (Inl (LibraryError ''no such object''), st)
           | Some ob \<Rightarrow>
               (Inr VNone, st\<lparr>objects := (objects st)(a \<mapsto> ob\<lparr>attrs := (attrs ob)(''ready'' \<mapsto> VInt 1)\<rparr>)\<rparr>))
      | _ \<Rightarrow> (Inl TypeError, st))"

definition toy_const :: "int \<Rightarrow> impl" where
  "toy_const n args st = (Inr (VInt n), st)"

definition toy_failing :: impl where
  "toy_failing args st = (Inl (LibraryError ''not connected''), st)"

definition toy_library :: library where
  "toy_library =
     \<lparr>EWrapper_dict = [''__init__'' \<mapsto> Function toy_wrapper_init, ''currentTime'' \<mapsto> Function (toy_const 1)],
      EClient_dict = [''__init__'' \<mapsto> Function toy_client_init, ''reqCurrentTime'' \<mapsto> Function toy_failing,
        ''reqIds'' \<mapsto> Function (toy_const 3), ''DISCONNECTED'' \<mapsto> Value (VInt 0)],
      object_dict = [''__init__'' \<mapsto> Function (toy_const 2)]\<rparr>"

text \<open>
  The store before anything is allocated, and a second library, whose \<open>EClient.__init__\<close>
  raises.
\<close>

definition empty_store :: store where
  "empty_store = \<lparr>objects = Map.empty, next_addr = 0\<rparr>"

definition toy_broken_library :: library where
  "toy_broken_library = toy_library\<lparr>EClient_dict := [''__init__'' \<mapsto> Function toy_failing]\<rparr>"

section \<open>Properties\<close>

subsection \<open>Lookup on the classes\<close>

lemma resolve_IBAPI_init: "resolve L IBAPI ''__init__'' = Some IBAPI"
  by (simp add: resolve_def IBAPI_dict_def)

lemma resolve_IBAPI_other:
  "\<not> class_defines L IBAPI m \<Longrightarrow>
     resolve L IBAPI m = find (\<lambda>k. class_defines L k m) [EWrapper, EClient, Object]"
  by (simp add: resolve_def)

lemma resolve_defines: "resolve L c m = Some k \<Longrightarrow> class_defines L k m \<and> k \<in> set (mro c)"
  unfolding resolve_def by (auto simp: find_Some_iff)

lemma resolve_EClient_cases:
  "resolve L EClient m = Some k \<Longrightarrow> k = EClient \<or> k = Object"
  by (auto dest: resolve_defines)

text \<open>
  C3. Every name that the class body of \<open>EClient\<close> (the Requester interface) or of
  \<open>EWrapper\<close> (the CallbackSink interface) holds is found by attribute lookup on the class
  \<open>IBAPI\<close>: the type has every method of both capabilities.
\<close>

theorem IBAPI_has_both_capabilities:
  "m \<in> dom (EClient_dict L) \<union> dom (EWrapper_dict L) \<Longrightarrow> resolve L IBAPI m \<noteq> None"
  by (auto simp: resolve_def)

theorem IBAPI_has_both_capabilities_witness:
  "''reqCurrentTime'' \<in> dom (EClient_dict toy_library) \<union> dom (EWrapper_dict toy_library)
   \<and> resolve toy_library IBAPI ''reqCurrentTime'' = Some EClient
   \<and> resolve toy_library IBAPI ''currentTime'' = Some EWrapper"
proof -
  have h1: "''reqCurrentTime'' \<in> dom (EClient_dict toy_library) \<union> dom (EWrapper_dict toy_library)"
    by (simp add: toy_library_def)
  have h2: "''currentTime'' \<in> dom (EClient_dict toy_library) \<union> dom (EWrapper_dict toy_library)"
    by (simp add: toy_library_def)
  have r1: "resolve toy_library IBAPI ''reqCurrentTime'' = Some EClient"
    using IBAPI_has_both_capabilities [OF h1]
    by (simp add: resolve_def toy_library_def IBAPI_dict_def IBAPI_data_names_def)
  have r2: "resolve toy_library IBAPI ''currentTime'' = Some EWrapper"
    using IBAPI_has_both_capabilities [OF h2]
    by (simp add: resolve_def toy_library_def IBAPI_dict_def IBAPI_data_names_def)
  from h1 r1 r2 show ?thesis by simp
qed

subsection \<open>The initialiser and the construction call\<close>

lemma class_attr_iff:
  "class_attr L c m = Some (k, f) \<longleftrightarrow> class_lookup L c m = Some (k, Function f)"
  by (auto simp: class_attr_def split: option.splits entry.splits)

lemma class_lookup_EClient_owner:
  "class_lookup L EClient m = Some (k, e) \<Longrightarrow> k = EClient \<or> k = Object"
  by (auto simp: class_lookup_def split: option.splits dest: resolve_EClient_cases)

lemma class_attr_EClient_owner:
  "class_attr L EClient m = Some (k, f) \<Longrightarrow> k = EClient \<or> k = Object"
  by (auto simp: class_attr_iff dest: class_lookup_EClient_owner)

lemma IBAPI_init_self:
  "IBAPI_init L [self] st =
     (case class_lookup L EClient ''__init__'' of
        None \<Rightarrow> (Inl AttributeError, st, [])
      | Some (k, Value v) \<Rightarrow> (Inl TypeError, st, [])
      | Some (k, Function f) \<Rightarrow>
          (case f [self, self] st of
             (Inl e, st') \<Rightarrow> (Inl e, st', [Call k ''__init__'' [self, self] (Inl e)])
           | (Inr r, st') \<Rightarrow> (Inr VNone, st', [Call k ''__init__'' [self, self] (Inr r)])))"
  by (auto simp: IBAPI_init_def call_class_attr_def
      split: option.splits prod.splits sum.splits entry.splits)

lemma IBAPI_init_arity:
  "length args \<noteq> 1 \<Longrightarrow> IBAPI_init L args st = (Inl TypeError, st, [])"
  by (cases args) (auto simp: IBAPI_init_def split: list.splits)

lemma construct_no_args:
  "construct L [] st =
     (case class_lookup L EClient ''__init__'' of
        None \<Rightarrow> (Inl AttributeError, snd (allocate st), [])
      | Some (k, Value v) \<Rightarrow> (Inl TypeError, snd (allocate st), [])
      | Some (k, Function f) \<Rightarrow>
          (case f [VRef (next_addr st), VRef (next_addr st)] (snd (allocate st)) of
             (Inl e, st') \<Rightarrow>
               (Inl e, st', [Call k ''__init__'' [VRef (next_addr st), VRef (next_addr st)] (Inl e)])
           | (Inr r, st') \<Rightarrow>
               (Inr (VRef (next_addr st)), st',
                [Call k ''__init__'' [VRef (next_addr st), VRef (next_addr st)] (Inr r)])))"
  by (simp add: construct_def allocate_def IBAPI_init_self
      split: option.splits prod.splits sum.splits entry.splits)

lemma construct_no_args_func:
  assumes "class_attr L EClient ''__init__'' = Some (k, f)"
  shows "construct L [] st =
     (case f [VRef (next_addr st), VRef (next_addr st)] (snd (allocate st)) of
        (Inl e, st') \<Rightarrow>
          (Inl e, st', [Call k ''__init__'' [VRef (next_addr st), VRef (next_addr st)] (Inl e)])
      | (Inr r, st') \<Rightarrow>
          (Inr (VRef (next_addr st)), st',
           [Call k ''__init__'' [VRef (next_addr st), VRef (next_addr st)] (Inr r)]))"
  using assms by (simp add: class_attr_iff construct_no_args)

lemma construct_no_args_other:
  assumes "class_attr L EClient ''__init__'' = None"
  shows "events_of (construct L [] st) = [] \<and> isl (result_of (construct L [] st))"
  using assms
  by (auto simp: class_attr_def construct_no_args split: option.splits entry.splits)

lemma construct_with_args:
  "args \<noteq> [] \<Longrightarrow> construct L args st = (Inl TypeError, snd (allocate st), [])"
  by (simp add: construct_def allocate_def IBAPI_init_arity)

lemma events_construct_cases:
  "events_of (construct L args st) = [] \<or>
   (\<exists>k r. args = [] \<and> (k = EClient \<or> k = Object) \<and>
      events_of (construct L args st) = [Call k ''__init__'' [VRef (next_addr st), VRef (next_addr st)] r]
      \<and> (\<forall>e. r = Inl e \<longrightarrow> result_of (construct L args st) = Inl e))"
proof (cases args)
  case Nil
  show ?thesis
  proof (cases "class_attr L EClient ''__init__''")
    case None
    with Nil show ?thesis by (simp add: construct_no_args_other)
  next
    case (Some kf)
    obtain k f where kf: "kf = (k, f)" by (cases kf)
    from Some kf have own: "k = EClient \<or> k = Object"
      by (auto dest: class_attr_EClient_owner)
    obtain r st2 where run: "f [VRef (next_addr st), VRef (next_addr st)] (snd (allocate st)) = (r, st2)"
      by (cases "f [VRef (next_addr st), VRef (next_addr st)] (snd (allocate st))")
    from Some kf have ca: "class_attr L EClient ''__init__'' = Some (k, f)" by simp
    from Nil own run show ?thesis
      by (cases r) (auto simp: construct_no_args_func [OF ca])
  qed
next
  case (Cons x xs)
  then show ?thesis by (simp add: construct_with_args)
qed

lemma construct_returns:
  assumes "construct L args st = (Inr v, st', evs)"
  shows "\<exists>k f r. args = [] \<and> v = VRef (next_addr st)
           \<and> class_attr L EClient ''__init__'' = Some (k, f)
           \<and> f [v, v] (snd (allocate st)) = (Inr r, st')
           \<and> evs = [Call k ''__init__'' [v, v] (Inr r)]"
proof (cases args)
  case Nil
  show ?thesis
  proof (cases "class_attr L EClient ''__init__''")
    case None
    from construct_no_args_other [OF None, of st] Nil assms show ?thesis by simp
  next
    case (Some kf)
    obtain k f where kf: "kf = (k, f)" by (cases kf)
    from Some kf have ca: "class_attr L EClient ''__init__'' = Some (k, f)" by simp
    obtain r st2 where run: "f [VRef (next_addr st), VRef (next_addr st)] (snd (allocate st)) = (r, st2)"
      by (cases "f [VRef (next_addr st), VRef (next_addr st)] (snd (allocate st))")
    from Nil assms run ca show ?thesis
      by (cases r) (auto simp: construct_no_args_func [OF ca])
  qed
next
  case (Cons x xs)
  with assms show ?thesis by (simp add: construct_with_args)
qed

lemma toy_class_attr_init:
  "class_attr toy_library EClient ''__init__'' = Some (EClient, toy_client_init)"
  by (simp add: class_attr_def class_lookup_def resolve_def toy_library_def)

lemma toy_construct:
  "construct toy_library [] empty_store =
     (Inr (VRef 0),
      \<lparr>objects = [0 \<mapsto> \<lparr>cls = IBAPI, attrs = [''wrapper'' \<mapsto> VRef 0]\<rparr>], next_addr = Suc 0\<rparr>,
      [Call EClient ''__init__'' [VRef 0, VRef 0] (Inr VNone)])"
  by (simp add: construct_no_args_func [OF toy_class_attr_init] toy_client_init_def allocate_def
      empty_store_def)

lemma toy_broken_class_attr_init:
  "class_attr toy_broken_library EClient ''__init__'' = Some (EClient, toy_failing)"
  by (simp add: class_attr_def class_lookup_def resolve_def toy_broken_library_def toy_library_def)

lemma toy_broken_construct:
  "construct toy_broken_library [] empty_store =
     (Inl (LibraryError ''not connected''),
      \<lparr>objects = [0 \<mapsto> \<lparr>cls = IBAPI, attrs = Map.empty\<rparr>], next_addr = Suc 0\<rparr>,
      [Call EClient ''__init__'' [VRef 0, VRef 0] (Inl (LibraryError ''not connected''))])"
  by (simp add: construct_no_args_func [OF toy_broken_class_attr_init]
      toy_failing_def allocate_def empty_store_def)

text \<open>
  C1. For a library that keeps the binding contract, whenever the construction call
  \<open>IBAPI()\<close> returns, it returns a reference to an object whose registered callback target
  is that very reference: the target of the new connector is the connector itself.
\<close>

theorem construct_binds_self:
  assumes "registers_target L target"
    and "construct L [] st = (Inr v, st', evs)"
  shows "\<exists>a. v = VRef a \<and> target st' a = Some (VRef a)"
proof -
  from construct_returns [OF assms(2)] obtain k f r
    where v: "v = VRef (next_addr st)"
      and ca: "class_attr L EClient ''__init__'' = Some (k, f)"
      and run: "f [v, v] (snd (allocate st)) = (Inr r, st')"
    by blast
  from assms(1) ca run v have "target st' (next_addr st) = Some (VRef (next_addr st))"
    unfolding registers_target_def by blast
  with v show ?thesis by simp
qed

lemma toy_registers: "registers_target toy_library (\<lambda>st a. attr_of st a ''wrapper'')"
  unfolding registers_target_def
  by (auto simp: toy_class_attr_init toy_client_init_def attr_of_def
      split: list.splits val.splits option.splits)

theorem construct_binds_self_witness:
  "registers_target toy_library (\<lambda>st a. attr_of st a ''wrapper'')
   \<and> result_of (construct toy_library [] empty_store) = Inr (VRef 0)
   \<and> attr_of (store_of (construct toy_library [] empty_store)) 0 ''wrapper'' = Some (VRef 0)"
proof -
  have c: "registers_target toy_library (\<lambda>st a. attr_of st a ''wrapper'')"
    by (rule toy_registers)
  note r = toy_construct
  from construct_binds_self [OF c r]
  have "attr_of (store_of (construct toy_library [] empty_store)) 0 ''wrapper'' = Some (VRef 0)"
    by (simp add: r)
  with c r show ?thesis by simp
qed

text \<open>
  C2. Construction neither fails nor issues a request, as long as the library's own
  initialisation succeeds: when \<open>EClient.__init__\<close> exists and returns normally on the new
  object, the call \<open>IBAPI()\<close> returns a reference to that object (not \<open>None\<close>, not an
  exception), leaves the store as the library's initialiser left it, and has entered the
  library exactly once, in that initialiser: no request is among its calls.
\<close>

theorem construct_succeeds_without_requests:
  assumes "class_attr L EClient ''__init__'' = Some (k, f)"
    and "f [VRef (next_addr st), VRef (next_addr st)] (snd (allocate st)) = (Inr r, st')"
  shows "construct L [] st =
           (Inr (VRef (next_addr st)), st',
            [Call k ''__init__'' [VRef (next_addr st), VRef (next_addr st)] (Inr r)])
         \<and> \<not> list_ex is_request (events_of (construct L [] st))"
  using assms(2) by (simp add: construct_no_args_func [OF assms(1)])

theorem construct_succeeds_without_requests_witness:
  "class_attr toy_library EClient ''__init__'' = Some (EClient, toy_client_init)
   \<and> result_of (construct toy_library [] empty_store) = Inr (VRef 0)
   \<and> events_of (construct toy_library [] empty_store)
       = [Call EClient ''__init__'' [VRef 0, VRef 0] (Inr VNone)]
   \<and> \<not> list_ex is_request (events_of (construct toy_library [] empty_store))"
proof -
  have run: "toy_client_init [VRef (next_addr empty_store), VRef (next_addr empty_store)]
        (snd (allocate empty_store))
      = (Inr VNone, \<lparr>objects = [0 \<mapsto> \<lparr>cls = IBAPI, attrs = [''wrapper'' \<mapsto> VRef 0]\<rparr>],
           next_addr = Suc 0\<rparr>)"
    by (simp add: toy_client_init_def allocate_def empty_store_def)
  from construct_succeeds_without_requests [OF toy_class_attr_init run]
  show ?thesis by (simp add: toy_class_attr_init empty_store_def)
qed

text \<open>
  C6. The constructor has no parameter besides the instance: a construction call with
  any argument is a \<open>TypeError\<close> raised before the library is entered, and (where
  \<open>EClient.__init__\<close> exists) the body of the initialiser runs exactly for the call
  without arguments. There is no variation of construction by parameters.
\<close>

theorem construct_takes_no_arguments:
  "(args \<noteq> [] \<longrightarrow>
      result_of (construct L args st) = Inl TypeError \<and> events_of (construct L args st) = [])
   \<and> (class_attr L EClient ''__init__'' \<noteq> None \<longrightarrow>
      (events_of (construct L args st) \<noteq> [] \<longleftrightarrow> args = []))"
proof (rule conjI)
  show "args \<noteq> [] \<longrightarrow>
      result_of (construct L args st) = Inl TypeError \<and> events_of (construct L args st) = []"
    by (simp add: construct_with_args)
next
  show "class_attr L EClient ''__init__'' \<noteq> None \<longrightarrow>
      (events_of (construct L args st) \<noteq> [] \<longleftrightarrow> args = [])"
  proof
    assume "class_attr L EClient ''__init__'' \<noteq> None"
    then obtain k f where ca: "class_attr L EClient ''__init__'' = Some (k, f)" by auto
    show "events_of (construct L args st) \<noteq> [] \<longleftrightarrow> args = []"
      by (cases args)
        (auto simp: construct_no_args_func [OF ca] construct_with_args split: prod.splits sum.splits)
  qed
qed

theorem construct_takes_no_arguments_witness:
  "result_of (construct toy_library [VInt 7] empty_store) = Inl TypeError
   \<and> events_of (construct toy_library [VInt 7] empty_store) = []
   \<and> events_of (construct toy_library [] empty_store) \<noteq> []"
proof -
  have n: "[VInt 7] \<noteq> []" by simp
  have c: "class_attr toy_library EClient ''__init__'' \<noteq> None"
    by (simp add: toy_class_attr_init)
  from construct_takes_no_arguments [of "[VInt 7]" toy_library empty_store] n
  have a: "result_of (construct toy_library [VInt 7] empty_store) = Inl TypeError
      \<and> events_of (construct toy_library [VInt 7] empty_store) = []"
    by blast
  from construct_takes_no_arguments [of "[]" toy_library empty_store] c
  have b: "events_of (construct toy_library [] empty_store) \<noteq> []"
    by blast
  from a b show ?thesis by simp
qed

text \<open>
  C8. Construction initialises the Requester half only. The initialiser of \<open>IBAPI\<close> never
  calls \<open>EWrapper.__init__\<close>: no function of \<open>EWrapper\<close> is entered by the construction
  call, and the store after \<open>IBAPI()\<close> is the store that \<open>EClient.__init__\<close> left when run on
  the freshly allocated object, so that what the initialiser of \<open>EWrapper\<close> would set is
  there only if the library's \<open>EClient.__init__\<close> sets it.
\<close>

theorem construct_skips_EWrapper_init:
  "list_all (\<lambda>ev. event_class ev \<noteq> EWrapper) (events_of (construct L args st))
   \<and> (class_attr L EClient ''__init__'' = Some (k, f) \<longrightarrow>
        store_of (construct L [] st)
          = snd (f [VRef (next_addr st), VRef (next_addr st)] (snd (allocate st))))"
proof (intro conjI impI)
  from events_construct_cases [of L args st]
  show "list_all (\<lambda>ev. event_class ev \<noteq> EWrapper) (events_of (construct L args st))"
    by auto
next
  assume ca: "class_attr L EClient ''__init__'' = Some (k, f)"
  show "store_of (construct L [] st)
          = snd (f [VRef (next_addr st), VRef (next_addr st)] (snd (allocate st)))"
    by (simp add: construct_no_args_func [OF ca] split: prod.splits sum.splits)
qed

lemma toy_wrapper_init_marks:
  "toy_wrapper_init [VRef 0] (snd (allocate empty_store)) =
     (Inr VNone, \<lparr>objects = [0 \<mapsto> \<lparr>cls = IBAPI, attrs = [''ready'' \<mapsto> VInt 1]\<rparr>], next_addr = Suc 0\<rparr>)"
  by (simp add: toy_wrapper_init_def allocate_def empty_store_def)

theorem construct_skips_EWrapper_init_witness:
  "EWrapper_dict toy_library ''__init__'' = Some (Function toy_wrapper_init)
   \<and> attr_of (snd (toy_wrapper_init [VRef 0] (snd (allocate empty_store)))) 0 ''ready''
       = Some (VInt 1)
   \<and> list_all (\<lambda>ev. event_class ev \<noteq> EWrapper) (events_of (construct toy_library [] empty_store))
   \<and> store_of (construct toy_library [] empty_store)
       = snd (toy_client_init [VRef 0, VRef 0] (snd (allocate empty_store)))
   \<and> attr_of (store_of (construct toy_library [] empty_store)) 0 ''ready'' = None"
proof -
  note t = construct_skips_EWrapper_init [where L = toy_library
      and args = "[]" and st = empty_store and k = EClient and f = toy_client_init]
  have a: "EWrapper_dict toy_library ''__init__'' = Some (Function toy_wrapper_init)"
    by (simp add: toy_library_def)
  have b: "attr_of (snd (toy_wrapper_init [VRef 0] (snd (allocate empty_store)))) 0 ''ready''
       = Some (VInt 1)"
    by (simp add: toy_wrapper_init_marks attr_of_def)
  from t have c: "list_all (\<lambda>ev. event_class ev \<noteq> EWrapper)
      (events_of (construct toy_library [] empty_store))"
    by blast
  from t toy_class_attr_init have "store_of (construct toy_library [] empty_store)
       = snd (toy_client_init [VRef (next_addr empty_store), VRef (next_addr empty_store)]
           (snd (allocate empty_store)))"
    by blast
  then have d: "store_of (construct toy_library [] empty_store)
       = snd (toy_client_init [VRef 0, VRef 0] (snd (allocate empty_store)))"
    by (simp add: empty_store_def)
  from d have e: "attr_of (store_of (construct toy_library [] empty_store)) 0 ''ready'' = None"
    by (simp add: toy_client_init_def allocate_def empty_store_def attr_of_def)
  from a b c d e show ?thesis by simp
qed

subsection \<open>Method calls on a connector\<close>

lemma IBAPI_init_raised:
  "Call k m as (Inl e) \<in> set (events_of (IBAPI_init L args st))
   \<Longrightarrow> result_of (IBAPI_init L args st) = Inl e"
proof (cases "length args = 1")
  case True
  then obtain self where a: "args = [self]" by (cases args) auto
  assume "Call k m as (Inl e) \<in> set (events_of (IBAPI_init L args st))"
  with a show ?thesis
    by (auto simp: IBAPI_init_self split: option.splits prod.splits sum.splits entry.splits)
next
  case False
  assume "Call k m as (Inl e) \<in> set (events_of (IBAPI_init L args st))"
  with False show ?thesis by (simp add: IBAPI_init_arity)
qed

lemma invoke_own:
  assumes "objects st a = Some ob" and "attrs ob m = None"
    and "resolve L (cls ob) m = Some IBAPI"
  shows "invoke L a m args st =
     (case IBAPI_dict m of
        Some Own_function \<Rightarrow> IBAPI_init L (VRef a # args) st
      | _ \<Rightarrow> (Inl TypeError, st, []))"
  using assms by (simp add: invoke_def)

lemma invoke_library:
  assumes "objects st a = Some ob" and "attrs ob m = None"
    and "resolve L (cls ob) m = Some k" and "k \<noteq> IBAPI"
  shows "invoke L a m args st =
     (case lib_entry L k m of
        None \<Rightarrow> (Inl AttributeError, st, [])
      | Some (Value v) \<Rightarrow> (Inl TypeError, st, [])
      | Some (Function f) \<Rightarrow>
          (case f (VRef a # args) st of
             (r, st') \<Rightarrow> (r, st', [Call k m (VRef a # args) r])))"
  using assms by (cases k; hypsubst; simp add: invoke_def)

lemma invoke_cases:
  "events_of (invoke L a m args st) = []
   \<or> invoke L a m args st = IBAPI_init L (VRef a # args) st
   \<or> (\<exists>k r st'. invoke L a m args st = (r, st', [Call k m (VRef a # args) r]))"
proof (cases "objects st a")
  case None
  then show ?thesis by (simp add: invoke_def)
next
  case (Some ob)
  show ?thesis
  proof (cases "attrs ob m")
    case (Some v)
    with \<open>objects st a = Some ob\<close> show ?thesis by (simp add: invoke_def)
  next
    case None
    note at = this and ob = \<open>objects st a = Some ob\<close>
    show ?thesis
    proof (cases "resolve L (cls ob) m")
      case None
      with ob at show ?thesis by (simp add: invoke_def)
    next
      case (Some k)
      show ?thesis
      proof (cases "k = IBAPI")
        case True
        with Some have r: "resolve L (cls ob) m = Some IBAPI" by simp
        show ?thesis
          unfolding invoke_own [OF ob at r]
          by (simp split: option.splits own.splits)
      next
        case False
        show ?thesis
        proof (cases "lib_entry L k m")
          case None
          then show ?thesis unfolding invoke_library [OF ob at Some False] by simp
        next
          case (Some e)
          note le = this
          show ?thesis
          proof (cases e)
            case (Value v)
            with le show ?thesis
              unfolding invoke_library [OF ob at \<open>resolve L (cls ob) m = Some k\<close> False] by simp
          next
            case (Function f)
            obtain r st' where "f (VRef a # args) st = (r, st')"
              by (cases "f (VRef a # args) st")
            with le Function show ?thesis
              unfolding invoke_library [OF ob at \<open>resolve L (cls ob) m = Some k\<close> False] by simp
          qed
        qed
      qed
    qed
  qed
qed

lemma invoke_raised:
  assumes "Call k m as (Inl e) \<in> set (events_of (invoke L a n args st))"
  shows "result_of (invoke L a n args st) = Inl e"
  using invoke_cases [of L a n args st] assms
  by (auto dest: IBAPI_init_raised)

lemma toy_resolve_request: "resolve toy_library IBAPI ''reqCurrentTime'' = Some EClient"
  by (simp add: resolve_def toy_library_def IBAPI_dict_def IBAPI_data_names_def)

lemma toy_resolve_callback: "resolve toy_library IBAPI ''currentTime'' = Some EWrapper"
  by (simp add: resolve_def toy_library_def IBAPI_dict_def IBAPI_data_names_def)

lemma toy_invoke_request:
  "invoke toy_library 0 ''reqCurrentTime'' [] (store_of (construct toy_library [] empty_store)) =
     (Inl (LibraryError ''not connected''),
      store_of (construct toy_library [] empty_store),
      [Call EClient ''reqCurrentTime'' [VRef 0] (Inl (LibraryError ''not connected''))])"
proof -
  have f: "EClient_dict toy_library ''reqCurrentTime'' = Some (Function toy_failing)"
    by (simp add: toy_library_def)
  show ?thesis
    by (simp add: toy_construct invoke_def toy_resolve_request f toy_failing_def)
qed

lemma toy_invoke_callback:
  "invoke toy_library 0 ''currentTime'' [] (store_of (construct toy_library [] empty_store)) =
     (Inr (VInt 1), store_of (construct toy_library [] empty_store),
      [Call EWrapper ''currentTime'' [VRef 0] (Inr (VInt 1))])"
proof -
  have f: "EWrapper_dict toy_library ''currentTime'' = Some (Function (toy_const 1))"
    by (simp add: toy_library_def)
  show ?thesis
    by (simp add: toy_construct invoke_def toy_resolve_callback f toy_const_def)
qed


text \<open>
  C5. An exception raised by the library reaches the caller as it is, during construction
  and during use: whenever a library function entered by \<open>IBAPI(args)\<close> or by a method
  call \<open>obj.n(args)\<close> raised \<open>e\<close>, the result of the whole call is the exception \<open>e\<close>
  itself. Nothing in the class catches or replaces it.
\<close>

theorem library_errors_pass_through:
  "(Call k m as (Inl e) \<in> set (events_of (construct L args st))
      \<longrightarrow> result_of (construct L args st) = Inl e)
   \<and> (Call k m as (Inl e) \<in> set (events_of (invoke L a n args st))
      \<longrightarrow> result_of (invoke L a n args st) = Inl e)"
proof (intro conjI impI)
  assume "Call k m as (Inl e) \<in> set (events_of (construct L args st))"
  with events_construct_cases [of L args st]
  show "result_of (construct L args st) = Inl e" by auto
next
  assume h: "Call k m as (Inl e) \<in> set (events_of (invoke L a n args st))"
  show "result_of (invoke L a n args st) = Inl e"
    using h by (rule invoke_raised)
qed

theorem library_errors_pass_through_witness:
  "result_of (construct toy_broken_library [] empty_store) = Inl (LibraryError ''not connected'')
   \<and> result_of (invoke toy_library 0 ''reqCurrentTime'' []
         (store_of (construct toy_library [] empty_store))) = Inl (LibraryError ''not connected'')"
proof -
  have m1: "Call EClient ''__init__'' [VRef 0, VRef 0] (Inl (LibraryError ''not connected''))
      \<in> set (events_of (construct toy_broken_library [] empty_store))"
    by (simp add: toy_broken_construct)
  have m2: "Call EClient ''reqCurrentTime'' [VRef 0] (Inl (LibraryError ''not connected''))
      \<in> set (events_of (invoke toy_library 0 ''reqCurrentTime'' []
            (store_of (construct toy_library [] empty_store))))"
    by (simp add: toy_invoke_request)
  from m1 library_errors_pass_through
    [where k = EClient and m = "''__init__''" and as = "[VRef 0, VRef 0]"
      and e = "LibraryError ''not connected''" and L = toy_broken_library and args = "[]"
      and st = empty_store]
  have r1: "result_of (construct toy_broken_library [] empty_store) = Inl (LibraryError ''not connected'')"
    by blast
  from m2 library_errors_pass_through
    [where k = EClient and m = "''reqCurrentTime''" and as = "[VRef 0]"
      and e = "LibraryError ''not connected''" and L = toy_library and args = "[]"
      and a = 0 and n = "''reqCurrentTime''"
      and st = "store_of (construct toy_library [] empty_store)"]
  have r2: "result_of (invoke toy_library 0 ''reqCurrentTime'' []
         (store_of (construct toy_library [] empty_store))) = Inl (LibraryError ''not connected'')"
    by blast
  from r1 r2 show ?thesis by simp
qed





subsection \<open>Runs of a client\<close>












end
